theory Spec2Isabelle
  imports Complex_Main "HOL-Library.Word"
begin

unbundle bit_operations_syntax

section \<open>Go standard-library string functions used by the process-facts engine\<close>

text \<open>
  A Go string is a byte sequence; it is modelled as a \<open>string\<close> (a list of \<open>char\<close>, one
  per byte).  The library functions below are modelled on ASCII text, which is what the
  shelled-out utilities (ps, lsof, pgrep, launchctl) print.  Go additionally treats a few
  multi-byte code points (U+0085, U+00A0, ...) as white space and folds the case of
  non-ASCII letters; those are outside this model.
\<close>

definition isSpace :: "char \<Rightarrow> bool" where
  \<comment> \<open>unicode.IsSpace on ASCII: tab, newline, vertical tab, form feed, carriage return, space\<close>
  "isSpace c = (let n = (of_char c :: nat) in n = 32 \<or> (9 \<le> n \<and> n \<le> 13))"

definition go_TrimSpace :: "string \<Rightarrow> string" where
  "go_TrimSpace s = rev (dropWhile isSpace (rev (dropWhile isSpace s)))"

text \<open>strings.Fields: the maximal runs of non-space bytes, in order.  \<open>cur\<close> is the field
  being read, reversed.\<close>

fun fieldsFrom :: "string \<Rightarrow> string \<Rightarrow> string list" where
  "fieldsFrom cur [] = (if cur = [] then [] else [rev cur])"
| "fieldsFrom cur (c # cs) =
     (if isSpace c then (if cur = [] then fieldsFrom [] cs else rev cur # fieldsFrom [] cs)
      else fieldsFrom (c # cur) cs)"

definition go_Fields :: "string \<Rightarrow> string list" where
  "go_Fields s = fieldsFrom [] s"

text \<open>strings.Lines: the lines of a string, each with its terminating newline; a final
  line without a newline is yielded too, the empty string yields nothing.\<close>

fun linesFrom :: "string \<Rightarrow> string \<Rightarrow> string list" where
  "linesFrom cur [] = (if cur = [] then [] else [rev cur])"
| "linesFrom cur (c # cs) =
     (if c = CHR 0x0A then rev (c # cur) # linesFrom [] cs else linesFrom (c # cur) cs)"

definition go_Lines :: "string \<Rightarrow> string list" where
  "go_Lines s = linesFrom [] s"

fun go_Join :: "string list \<Rightarrow> string \<Rightarrow> string" where
  "go_Join [] sep = []"
| "go_Join [x] sep = x"
| "go_Join (x # y # ys) sep = x @ sep @ go_Join (y # ys) sep"

definition go_HasPrefix :: "string \<Rightarrow> string \<Rightarrow> bool" where
  "go_HasPrefix s p = (take (length p) s = p)"

definition go_TrimPrefix :: "string \<Rightarrow> string \<Rightarrow> string" where
  "go_TrimPrefix s p = (if go_HasPrefix s p then drop (length p) s else s)"

fun go_Contains :: "string \<Rightarrow> string \<Rightarrow> bool" where
  "go_Contains [] sub = (sub = [])"
| "go_Contains (c # cs) sub = (go_HasPrefix (c # cs) sub \<or> go_Contains cs sub)"

definition lowerChar :: "char \<Rightarrow> char" where
  "lowerChar c = (let n = (of_char c :: nat) in if 65 \<le> n \<and> n \<le> 90 then char_of (n + 32) else c)"

definition go_ToLower :: "string \<Rightarrow> string" where
  "go_ToLower s = map lowerChar s"

definition go_EqualFold :: "string \<Rightarrow> string \<Rightarrow> bool" where
  "go_EqualFold s t = (go_ToLower s = go_ToLower t)"

text \<open>strings.Split with a one-byte separator: always at least one part.\<close>

fun splitFrom :: "char \<Rightarrow> string \<Rightarrow> string \<Rightarrow> string list" where
  "splitFrom sep cur [] = [rev cur]"
| "splitFrom sep cur (c # cs) =
     (if c = sep then rev cur # splitFrom sep [] cs else splitFrom sep (c # cur) cs)"

definition go_Split :: "string \<Rightarrow> char \<Rightarrow> string list" where
  "go_Split s sep = splitFrom sep [] s"

text \<open>The verb \<open>%-4s\<close> of fmt.Sprintf: left-justified, padded with spaces to width 4.\<close>

definition padRight :: "nat \<Rightarrow> string \<Rightarrow> string" where
  "padRight w s = s @ replicate (w - length s) (CHR '' '')"

subsection \<open>strconv\<close>

definition isDigit :: "char \<Rightarrow> bool" where
  "isDigit c = (let n = (of_char c :: nat) in 48 \<le> n \<and> n \<le> 57)"

definition digitsVal :: "string \<Rightarrow> nat" where
  "digitsVal s = foldl (\<lambda>acc c. acc * 10 + (of_char c - 48)) 0 s"

definition ParseUint :: "string \<Rightarrow> 64 word option" where
  \<comment> \<open>strconv.ParseUint(s, 10, 64): digits only, no sign, value below 2^64\<close>
  "ParseUint s =
     (if s = [] \<or> \<not> list_all isDigit s then None
      else if digitsVal s < 2 ^ 64 then Some (word_of_nat (digitsVal s)) else None)"

definition Atoi :: "string \<Rightarrow> int option" where
  \<comment> \<open>strconv.Atoi on a 64-bit target: optional sign, digits, value in the int64 range\<close>
  "Atoi s =
     (let neg = (s \<noteq> [] \<and> hd s = CHR ''-'');
          ds = (if s \<noteq> [] \<and> (hd s = CHR ''-'' \<or> hd s = CHR ''+'') then tl s else s);
          v = (if neg then - int (digitsVal ds) else int (digitsVal ds))
      in if ds = [] \<or> \<not> list_all isDigit ds then None
         else if - (2 ^ 63) \<le> v \<and> v < 2 ^ 63 then Some v else None)"

section \<open>Errors\<close>

text \<open>Go errors as values.  \<open>OsError\<close> is whatever the operating system or a child process
  reported; the other constructors are the errors the engine builds itself.\<close>

datatype error =
    OsError string
  | Wrapped string error    \<comment> \<open>fmt.Errorf("prefix: %w", err)\<close>
  | Msg string              \<comment> \<open>fmt.Errorf / errors.New with a plain message\<close>
  | MissingFields string    \<comment> \<open>"ps rss/vsz output missing fields: %q"\<close>
  | NtQueryFailed "64 word" \<comment> \<open>"NtQueryInformationProcess failed with status %x"\<close>
  | NotInSnapshot int       \<comment> \<open>"process %d not found in snapshot"\<close>
  | Joined error error      \<comment> \<open>errors.Join of two non-nil errors\<close>

text \<open>A run-time panic of the Go program (index or slice bounds out of range).\<close>

datatype panic = IndexOutOfRange | SliceOutOfRange

section \<open>The macOS backend: resource sampling through external tools\<close>

text \<open>The external tools are an oracle: each field is the result of running one command,
  either its standard output or the error of \<open>cmd.Output()\<close>.\<close>

record darwin_os =
  run_ps :: "int \<Rightarrow> error + string"         \<comment> \<open>ps -p PID -o rss=,vsz=,thcount=\<close>
  run_lsof :: "int \<Rightarrow> error + string"       \<comment> \<open>lsof -nP -p PID\<close>
  run_launchctl :: "error + string"          \<comment> \<open>launchctl limit maxfiles\<close>
  run_ulimit :: "error + string"             \<comment> \<open>sh -c "ulimit -n"\<close>
  run_pgrep :: "int \<Rightarrow> error + string"      \<comment> \<open>pgrep -P PID (combined output)\<close>

record MemoryInfo =
  RSS :: "64 word"
  RSSMB :: real
  VMS :: "64 word"
  VMSMB :: real

definition zeroMemoryInfo :: MemoryInfo where
  "zeroMemoryInfo = \<lparr>RSS = 0, RSSMB = 0, VMS = 0, VMSMB = 0\<rparr>"

text \<open>model.IOStats is never written on this backend; only its zero value occurs.\<close>

datatype IOStats = ZeroIOStats

definition toMB :: "64 word \<Rightarrow> real" where
  \<comment> \<open>float64(x) / (1024 * 1024); exact below 2^53, the rounding of float64(x) above it
      is not modelled\<close>
  "toMB x = real (unat x) / (1024 * 1024)"

definition readDarwinMemory :: "darwin_os \<Rightarrow> int \<Rightarrow> MemoryInfo \<times> int \<times> error option" where
  "readDarwinMemory os pid =
     (case run_ps os pid of
        Inl err \<Rightarrow> (zeroMemoryInfo, 0, Some (Wrapped ''ps rss/vsz'' err))
      | Inr out \<Rightarrow>
          (let fields = go_Fields (go_TrimSpace out) in
           if length fields < 3 then (zeroMemoryInfo, 0, Some (MissingFields (go_TrimSpace out)))
           else
             (let m1 = (case ParseUint (fields ! 0) of
                          Some rss \<Rightarrow> zeroMemoryInfo\<lparr>RSS := rss * 1024, RSSMB := toMB (rss * 1024)\<rparr>
                        | None \<Rightarrow> zeroMemoryInfo);
                  m2 = (case ParseUint (fields ! 1) of
                          Some vms \<Rightarrow> m1\<lparr>VMS := vms * 1024, VMSMB := toMB (vms * 1024)\<rparr>
                        | None \<Rightarrow> m1);
                  threadCount = (case Atoi (fields ! 2) of Some n \<Rightarrow> n | None \<Rightarrow> 0)
              in (m2, threadCount, None))))"

definition summarizeLsofLine :: "string \<Rightarrow> string" where
  "summarizeLsofLine line =
     (let fields = go_Fields line in
      if length fields < 9 then []
      else (fields ! 3) @ '' '' @ padRight 4 (fields ! 4) @ '' '' @ go_Join (drop 8 fields) '' '')"

text \<open>The loop of collectDarwinFDs.  The state is the triple of its three variables
  \<open>count\<close>, \<open>samples\<close> and \<open>skipHdr\<close>; one step handles one line.\<close>

definition fdStep :: "int \<times> string list \<times> bool \<Rightarrow> string \<Rightarrow> int \<times> string list \<times> bool" where
  "fdStep st line =
     (case st of (count, samples, skipHdr) \<Rightarrow>
        (let trimmed = go_TrimSpace line in
         if trimmed = [] then (count, samples, skipHdr)
         else if skipHdr then (count, samples, False)
         else (count + 1,
               (if length samples < 10
                then (let sample = summarizeLsofLine trimmed in
                      if sample \<noteq> [] then samples @ [sample] else samples)
                else samples),
               skipHdr)))"

definition collectDarwinFDs :: "darwin_os \<Rightarrow> int \<Rightarrow> int \<times> string list \<times> error option" where
  "collectDarwinFDs os pid =
     (case run_lsof os pid of
        Inl err \<Rightarrow> (0, [], Some (Wrapped ''lsof'' err))
      | Inr out \<Rightarrow>
          (case foldl fdStep (0, [], True) (go_Lines out) of
             (count, samples, skipHdr) \<Rightarrow> (count, samples, None)))"

definition parseLaunchctlLimitLine :: "string \<Rightarrow> 64 word \<times> bool" where
  "parseLaunchctlLimitLine line =
     (let fields = go_Fields line in
      if length fields < 2 then (0, False)
      else (let soft = fields ! 1 in
            if go_EqualFold soft ''unlimited'' then (0, True)
            else (case ParseUint soft of None \<Rightarrow> (0, False) | Some limit \<Rightarrow> (limit, True))))"

text \<open>The loop over launchctl's lines: the first line that mentions maxfiles and parses
  decides; \<open>None\<close> when no line does.\<close>

fun firstLimit :: "string list \<Rightarrow> 64 word option" where
  "firstLimit [] = None"
| "firstLimit (line # rest) =
     (if go_Contains line ''maxfiles''
      then (case parseLaunchctlLimitLine line of
              (limit, True) \<Rightarrow> Some limit
            | (_, False) \<Rightarrow> firstLimit rest)
      else firstLimit rest)"

definition ulimitFallback :: "darwin_os \<Rightarrow> 64 word" where
  "ulimitFallback os =
     (case run_ulimit os of
        Inl _ \<Rightarrow> 0
      | Inr data \<Rightarrow> (case ParseUint (go_TrimSpace data) of Some limit \<Rightarrow> limit | None \<Rightarrow> 0))"

definition detectDarwinFileLimit :: "darwin_os \<Rightarrow> 64 word" where
  "detectDarwinFileLimit os =
     (case run_launchctl os of
        Inl _ \<Rightarrow> ulimitFallback os
      | Inr data \<Rightarrow>
          (case firstLimit (go_Lines data) of
             Some limit \<Rightarrow> limit
           | None \<Rightarrow> ulimitFallback os))"

fun childPids :: "string list \<Rightarrow> int list" where
  "childPids [] = []"
| "childPids (line # rest) =
     (let trimmed = go_TrimSpace line in
      if trimmed = [] then childPids rest
      else (case Atoi trimmed of Some pidVal \<Rightarrow> pidVal # childPids rest | None \<Rightarrow> childPids rest))"

definition listDarwinChildren :: "darwin_os \<Rightarrow> int \<Rightarrow> int list" where
  "listDarwinChildren os pid =
     (case run_pgrep os pid of Inl _ \<Rightarrow> [] | Inr out \<Rightarrow> childPids (go_Lines out))"

record ExtendedInfo =
  memInfo :: MemoryInfo
  ioStats :: IOStats
  fileDescs :: "string list"
  fdCount :: int
  fdLimit :: "64 word"
  children :: "int list"
  threadCount :: int
  extErr :: "error option"

definition ReadExtendedInfo :: "darwin_os \<Rightarrow> int \<Rightarrow> ExtendedInfo" where
  "ReadExtendedInfo os pid =
     (case readDarwinMemory os pid of (mem, threads, memErr) \<Rightarrow>
      case collectDarwinFDs os pid of (fdc, descs, fdErr) \<Rightarrow>
        \<lparr>memInfo = mem, ioStats = ZeroIOStats, fileDescs = descs, fdCount = fdc,
         fdLimit = detectDarwinFileLimit os, children = listDarwinChildren os pid,
         threadCount = threads,
         extErr = (case (memErr, fdErr) of
                     (Some e1, Some e2) \<Rightarrow> Some (Joined e1 e2)
                   | _ \<Rightarrow> None)\<rparr>)"


definition rowsOf :: "string list \<Rightarrow> string list" where
  "rowsOf ls = filter (\<lambda>l. l \<noteq> []) (map go_TrimSpace ls)"


section \<open>The Windows backend: tiered acquisition\<close>

text \<open>The model is of a 64-bit target: \<open>uintptr\<close> is a 64-bit word and \<open>int\<close> is 64 bits
  wide, so the test \<open>unsafe.Sizeof(uintptr(0)) == 4\<close> in getFullProcessInfo is false and
  the offset of the process-parameters pointer in the control block is 0x20.\<close>

type_synonym handle = nat
type_synonym uintptr = "64 word"

definition PROCESS_QUERY_INFORMATION :: "32 word" where
  "PROCESS_QUERY_INFORMATION = 0x0400"

definition PROCESS_VM_READ :: "32 word" where
  "PROCESS_VM_READ = 0x0010"

definition PROCESS_QUERY_LIMITED_INFORMATION :: "32 word" where
  "PROCESS_QUERY_LIMITED_INFORMATION = 0x1000"

record processBasicInformation =
  ExitStatus :: uintptr
  PebBaseAddress :: uintptr
  AffinityMask :: uintptr
  BasePriority :: uintptr
  UniqueProcessId :: uintptr
  InheritedFromUniqueProcessId :: uintptr

record unicodeString =
  Length :: "16 word"
  MaximumLength :: "16 word"
  Buffer :: uintptr

text \<open>The fields of RTL_USER_PROCESS_PARAMETERS that the engine reads.  (The field
  \<open>CommandLine\<close> is called \<open>CommandLineStr\<close> here; the name \<open>CommandLine\<close> is the field
  of Win32ProcessInfo.)\<close>

record rtlUserProcessParameters =
  CurrentDirectoryPath :: unicodeString
  ImagePathName :: unicodeString
  CommandLineStr :: unicodeString

text \<open>The fields of PROCESSENTRY32 that the engine reads.\<close>

record PROCESSENTRY32 =
  ProcessID :: "32 word"
  ParentProcessID :: "32 word"
  ExeFile :: "16 word list"

text \<open>time.Time: the zero value, or an instant given in nanoseconds since the Unix epoch.
  An instant built by \<open>time.Unix(0, ns)\<close> is never the zero value.\<close>

datatype time = ZeroTime | UnixNano int

text \<open>A Go slice of strings is \<open>None\<close> when nil and \<open>Some xs\<close> when allocated, so that the
  explicit empty sequence \<open>[]string{}\<close> and the zero value are told apart.\<close>

record Win32ProcessInfo =
  PPID :: int
  CommandLine :: string
  Exe :: string
  Cwd :: string
  Env :: "string list option"
  StartedAt :: time

definition zeroInfo :: Win32ProcessInfo where
  "zeroInfo = \<lparr>PPID = 0, CommandLine = [], Exe = [], Cwd = [], Env = None, StartedAt = ZeroTime\<rparr>"

definition len_slice :: "'a list option \<Rightarrow> nat" where
  "len_slice s = (case s of None \<Rightarrow> 0 | Some xs \<Rightarrow> length xs)"

text \<open>The operating system as an oracle.  A raw ReadProcessMemory into a destination of
  known type is a typed read that fails (\<open>None\<close>) when the call returns 0.  The process
  snapshot is the finite list of entries that Process32First/Process32Next enumerate:
  \<open>None\<close> when the snapshot handle is invalid, the empty list when Process32First fails.\<close>

record win_os =
  OpenProcess :: "32 word \<Rightarrow> 32 word \<Rightarrow> error + handle"
  GetProcessTimes :: "handle \<Rightarrow> int option"
  NtQueryInformationProcess :: "handle \<Rightarrow> uintptr \<times> processBasicInformation"
  ReadPointer :: "handle \<Rightarrow> uintptr \<Rightarrow> uintptr option"
  ReadParams :: "handle \<Rightarrow> uintptr \<Rightarrow> rtlUserProcessParameters option"
  ReadWide :: "handle \<Rightarrow> uintptr \<Rightarrow> nat \<Rightarrow> 16 word list option"
  QueryFullProcessImageName :: "handle \<Rightarrow> 16 word list option"
  CreateToolhelp32Snapshot :: "PROCESSENTRY32 list option"
  utf16_decode :: "16 word list \<Rightarrow> string"
  filepath_Base :: "string \<Rightarrow> string"

definition UTF16ToString :: "win_os \<Rightarrow> 16 word list \<Rightarrow> string" where
  \<comment> \<open>syscall.UTF16ToString: the text before the first NUL\<close>
  "UTF16ToString os ws = utf16_decode os (takeWhile (\<lambda>w. w \<noteq> 0) ws)"

definition getProcessStartTime :: "win_os \<Rightarrow> handle \<Rightarrow> time" where
  "getProcessStartTime os h =
     (case GetProcessTimes os h of None \<Rightarrow> ZeroTime | Some ns \<Rightarrow> UnixNano ns)"

definition getProcessImageName :: "win_os \<Rightarrow> handle \<Rightarrow> string" where
  "getProcessImageName os h =
     (case QueryFullProcessImageName os h of None \<Rightarrow> [] | Some buf \<Rightarrow> UTF16ToString os buf)"

text \<open>readUnicodeString allocates \<open>Length / 2\<close> code units and takes the address of the
  first; with \<open>Length = 1\<close> the buffer is empty and \<open>&buf[0]\<close> panics.\<close>

definition readUnicodeString :: "win_os \<Rightarrow> handle \<Rightarrow> unicodeString \<Rightarrow> panic + string" where
  "readUnicodeString os h us =
     (if Length us = 0 then Inr []
      else if unat (Length us) div 2 = 0 then Inl IndexOutOfRange
      else (case ReadWide os h (Buffer us) (unat (Length us)) of
              None \<Rightarrow> Inr []
            | Some buf \<Rightarrow> Inr (UTF16ToString os (take (unat (Length us) div 2) buf))))"

text \<open>getFullProcessInfo writes through the pointer \<open>info\<close>; the model returns the updated
  record together with the error, also when the tier aborts.\<close>

definition getFullProcessInfo ::
  "win_os \<Rightarrow> handle \<Rightarrow> int \<Rightarrow> Win32ProcessInfo \<Rightarrow> panic + (error option \<times> Win32ProcessInfo)" where
  "getFullProcessInfo os h pid info =
     (let info1 = info\<lparr>StartedAt := getProcessStartTime os h\<rparr> in
      case NtQueryInformationProcess os h of (status, pbi) \<Rightarrow>
        if status \<noteq> 0 then Inr (Some (NtQueryFailed status), info1)
        else
          (let info2 = info1\<lparr>PPID := sint (InheritedFromUniqueProcessId pbi)\<rparr> in
           if PebBaseAddress pbi = 0 then Inr (Some (Msg ''PEB Base Address is 0''), info2)
           else
             (case ReadPointer os h (PebBaseAddress pbi + 0x20) of
                None \<Rightarrow> Inr (Some (Msg ''failed to read PEB ProcessParameters address''), info2)
              | Some pebPtr \<Rightarrow>
                  (case ReadParams os h pebPtr of
                     None \<Rightarrow> Inr (Some (Msg ''failed to read ProcessParameters struct''), info2)
                   | Some params \<Rightarrow>
                       (case readUnicodeString os h (CurrentDirectoryPath params) of
                          Inl p \<Rightarrow> Inl p
                        | Inr cwd \<Rightarrow>
                            (case readUnicodeString os h (CommandLineStr params) of
                               Inl p \<Rightarrow> Inl p
                             | Inr cmd \<Rightarrow>
                                 (case readUnicodeString os h (ImagePathName params) of
                                    Inl p \<Rightarrow> Inl p
                                  | Inr exe \<Rightarrow>
                                      Inr (None, info2\<lparr>Cwd := cwd, CommandLine := cmd,
                                                       Exe := exe, Env := Some []\<rparr>))))))))"

text \<open>The loop of getInfoFromSnapshot over the entries after a successful Process32First.\<close>

fun scanSnapshot :: "win_os \<Rightarrow> int \<Rightarrow> PROCESSENTRY32 list \<Rightarrow> int \<times> string \<times> error option" where
  "scanSnapshot os pid [] = (0, [], Some (NotInSnapshot pid))"
| "scanSnapshot os pid (pe32 # rest) =
     (if uint (ProcessID pe32) = pid
      then (uint (ParentProcessID pe32), UTF16ToString os (ExeFile pe32), None)
      else scanSnapshot os pid rest)"

definition getInfoFromSnapshot :: "win_os \<Rightarrow> int \<Rightarrow> int \<times> string \<times> error option" where
  "getInfoFromSnapshot os pid =
     (case CreateToolhelp32Snapshot os of
        None \<Rightarrow> (0, [], Some (Msg ''failed to create snapshot''))
      | Some [] \<Rightarrow> (0, [], Some (Msg ''failed to get first process''))
      | Some (pe32 # rest) \<Rightarrow> scanSnapshot os pid (pe32 # rest))"

text \<open>The tiers, in the order the engine tries them.  GetProcessDetailedInfo returns, next
  to its result, the list of tiers it attempted: an entry is appended where the source
  starts the tier (the first OpenProcess, the second OpenProcess, the snapshot lookup in
  the branch where the second OpenProcess failed).\<close>

datatype tier = FullAccess | LimitedAccess | SnapshotOnly

definition GetProcessDetailedInfo ::
  "win_os \<Rightarrow> int \<Rightarrow> tier list \<times> (panic + (Win32ProcessInfo \<times> error option))" where
  "GetProcessDetailedInfo os pid =
     (let info = zeroInfo; log1 = [FullAccess];
          full = (case OpenProcess os (PROCESS_QUERY_INFORMATION OR PROCESS_VM_READ) (word_of_int pid) of
                    Inl err \<Rightarrow> Inr (Some err, info)
                  | Inr handle \<Rightarrow> getFullProcessInfo os handle pid info)
      in case full of
           Inl p \<Rightarrow> (log1, Inl p)
         | Inr (None, info') \<Rightarrow> (log1, Inr (info', None))
         | Inr (Some _, info') \<Rightarrow>
             (let log2 = log1 @ [LimitedAccess] in
              case OpenProcess os PROCESS_QUERY_LIMITED_INFORMATION (word_of_int pid) of
                Inl err \<Rightarrow>
                  (let log3 = log2 @ [SnapshotOnly] in
                   case getInfoFromSnapshot os pid of
                     (ppid, exe, None) \<Rightarrow>
                       (log3, Inr (info'\<lparr>PPID := ppid, Exe := exe, CommandLine := exe\<rparr>, None))
                   | (_, _, Some _) \<Rightarrow> (log3, Inr (info', Some err)))
              | Inr handleLimited \<Rightarrow>
                  (let info1 = info'\<lparr>StartedAt := getProcessStartTime os handleLimited\<rparr>;
                       exePath = getProcessImageName os handleLimited;
                       info2 = info1\<lparr>Exe := exePath\<rparr>;
                       info3 = (if exePath \<noteq> [] then info2\<lparr>CommandLine := filepath_Base os exePath\<rparr>
                                else info2);
                       info4 = info3\<lparr>PPID := fst (getInfoFromSnapshot os pid)\<rparr>
                   in (log2, Inr (info4\<lparr>Cwd := [], Env := Some []\<rparr>, None)))))"

text \<open>What it means for the full-access tier to fail, read off the oracle: the handle open
  is denied, or getFullProcessInfo returns an error.\<close>

definition fullOpenDenied :: "win_os \<Rightarrow> int \<Rightarrow> bool" where
  "fullOpenDenied os pid =
     isl (OpenProcess os (PROCESS_QUERY_INFORMATION OR PROCESS_VM_READ) (word_of_int pid))"

definition limitedOpenDenied :: "win_os \<Rightarrow> int \<Rightarrow> bool" where
  "limitedOpenDenied os pid = isl (OpenProcess os PROCESS_QUERY_LIMITED_INFORMATION (word_of_int pid))"

definition fullReadFails :: "win_os \<Rightarrow> handle \<Rightarrow> bool" where
  "fullReadFails os h =
     (case NtQueryInformationProcess os h of (status, pbi) \<Rightarrow>
        status \<noteq> 0 \<or> PebBaseAddress pbi = 0
        \<or> (case ReadPointer os h (PebBaseAddress pbi + 0x20) of
              None \<Rightarrow> True
            | Some pebPtr \<Rightarrow> ReadParams os h pebPtr = None))"

definition fullTierFails :: "win_os \<Rightarrow> int \<Rightarrow> bool" where
  "fullTierFails os pid =
     (case OpenProcess os (PROCESS_QUERY_INFORMATION OR PROCESS_VM_READ) (word_of_int pid) of
        Inl _ \<Rightarrow> True
      | Inr h \<Rightarrow> fullReadFails os h)"

definition fullTierSucceeds :: "win_os \<Rightarrow> int \<Rightarrow> bool" where
  "fullTierSucceeds os pid =
     (case OpenProcess os (PROCESS_QUERY_INFORMATION OR PROCESS_VM_READ) (word_of_int pid) of
        Inl _ \<Rightarrow> False
      | Inr h \<Rightarrow> (case getFullProcessInfo os h pid zeroInfo of Inr (None, _) \<Rightarrow> True | _ \<Rightarrow> False))"

section \<open>Enrichment detectors\<close>

subsection \<open>Container detection\<close>

text \<open>Modelled from the spec: extractFlagValue is called by detectContainer but is not among
  the sources.  The specification says that the detector extracts "the value following a
  \<open>--name\<close> flag (or \<open>-p\<close>/\<open>--profile\<close> for cluster-bootstrap tools) if present", and its
  examples write the flag both as \<open>--name mycontainer\<close> and as \<open>--name=X\<close>.  The model
  scans the white-space separated words of the command line from the left; a word equal
  to one of the flags yields the next word, a word that starts with a flag and \<open>=\<close>
  yields the rest of that word; no flag yields the empty string.\<close>

fun matchFlags :: "string \<Rightarrow> string list \<Rightarrow> string list \<Rightarrow> string option" where
  "matchFlags word rest [] = None"
| "matchFlags word rest (flag # flags) =
     (if word = flag \<and> rest \<noteq> [] then Some (hd rest)
      else if go_HasPrefix word (flag @ ''='') then Some (go_TrimPrefix word (flag @ ''=''))
      else matchFlags word rest flags)"

fun scanWords :: "string list \<Rightarrow> string list \<Rightarrow> string" where
  "scanWords [] flags = []"
| "scanWords (word # rest) flags =
     (case matchFlags word rest flags of Some v \<Rightarrow> v | None \<Rightarrow> scanWords rest flags)"

definition extractFlagValue :: "string \<Rightarrow> string list \<Rightarrow> string" where
  "extractFlagValue cmdline flags = scanWords (go_Fields cmdline) flags"

text \<open>findLongHexID and resolveContainerName (which runs a container-runtime CLI) are not
  among the sources either; detectContainer takes them as parameters.\<close>

record container_env =
  findLongHexID :: "string \<Rightarrow> string"
  resolveContainerName :: "string \<Rightarrow> string \<Rightarrow> string"

definition detectContainer :: "container_env \<Rightarrow> string \<Rightarrow> panic + string" where
  "detectContainer env cmdline =
     (if cmdline = [] then Inr []
      else
        (let lowerCmd = go_ToLower cmdline in
         if go_Contains lowerCmd ''docker'' then
           (let name = extractFlagValue cmdline [''--name''] in
            if name \<noteq> [] then Inr (''docker: '' @ name) else Inr ''docker'')
         else if go_Contains lowerCmd ''podman'' then
           (let name = extractFlagValue cmdline [''--name''] in
            if name \<noteq> [] then Inr (''podman: '' @ name) else Inr ''podman'')
         else if go_Contains lowerCmd ''minikube'' then
           (let profile = extractFlagValue cmdline [''-p'', ''--profile''] in
            if profile \<noteq> [] then Inr (''k8s: '' @ profile) else Inr ''kubernetes'')
         else if go_Contains lowerCmd ''kind'' then
           (let name = extractFlagValue cmdline [''--name''] in
            if name \<noteq> [] then Inr (''k8s: '' @ name) else Inr ''kubernetes'')
         else if go_Contains lowerCmd ''kubepods'' then
           (let id = findLongHexID env cmdline in
            if id \<noteq> [] then
              (let name = resolveContainerName env id ''crictl'' in
               if name \<noteq> [] then Inr (''k8s: '' @ name)
               else if length id < 12 then Inl SliceOutOfRange
               else Inr (''k8s ('' @ take 12 id @ '')''))
            else Inr ''kubernetes'')
         else if go_Contains lowerCmd ''nerdctl'' then
           (let name = extractFlagValue cmdline [''--name''] in
            if name \<noteq> [] then Inr (''containerd: '' @ name) else Inr ''containerd'')
         else if go_Contains lowerCmd ''containerd'' then
           (let name = extractFlagValue cmdline [''--name''] in
            if name \<noteq> [] then Inr (''containerd: '' @ name) else Inr ''containerd'')
         else Inr []))"

subsection \<open>Git context detection\<close>

text \<open>The file system and the path functions of the standard library (path/filepath, in
  its Windows variant for this build) are an oracle: \<open>isDir p\<close> holds when \<open>os.Stat(p)\<close>
  succeeds and reports a directory, \<open>ReadFile p\<close> is the content of the file or \<open>None\<close>
  when reading fails.\<close>

record fs_env =
  path_Join :: "string \<Rightarrow> string \<Rightarrow> string"
  path_Base :: "string \<Rightarrow> string"
  path_Dir :: "string \<Rightarrow> string"
  isDir :: "string \<Rightarrow> bool"
  ReadFile :: "string \<Rightarrow> string option"

definition headBranch :: "fs_env \<Rightarrow> string \<Rightarrow> string" where
  \<comment> \<open>the branch read from HEAD inside the metadata directory \<open>gitDir\<close>\<close>
  "headBranch fs gitDir =
     (case ReadFile fs (path_Join fs gitDir ''HEAD'') of
        None \<Rightarrow> []
      | Some head \<Rightarrow>
          (let headStr = go_TrimSpace head in
           if go_HasPrefix headStr ''ref: '' then
             (let ref = go_TrimPrefix headStr ''ref: '';
                  refParts = go_Split ref (CHR ''/'')
              in if length refParts > 0 then last refParts else [])
           else []))"

text \<open>The loop of detectGitInfo; the first argument is the number of iterations left.\<close>

fun gitWalk :: "fs_env \<Rightarrow> nat \<Rightarrow> string \<Rightarrow> string \<times> string" where
  "gitWalk fs 0 searchDir = ([], [])"
| "gitWalk fs (Suc n) searchDir =
     (let gitDir = path_Join fs searchDir ''.git'' in
      if isDir fs gitDir then (path_Base fs searchDir, headBranch fs gitDir)
      else (let parent = path_Dir fs searchDir in
            if parent = searchDir then ([], []) else gitWalk fs n parent))"

definition detectGitInfo :: "fs_env \<Rightarrow> string \<Rightarrow> string \<times> string" where
  "detectGitInfo fs cwd = (if cwd = [] then ([], []) else gitWalk fs 5 cwd)"

section \<open>Concrete environments for the examples\<close>

text \<open>Path functions on clean absolute paths separated by \<open>/\<close>, a simple instance of the
  path oracle.\<close>

definition slashJoin :: "string \<Rightarrow> string \<Rightarrow> string" where
  "slashJoin a b = a @ ''/'' @ b"

definition slashBase :: "string \<Rightarrow> string" where
  "slashBase p = last (go_Split p (CHR ''/''))"

definition slashDir :: "string \<Rightarrow> string" where
  "slashDir p = (let d = go_Join (butlast (go_Split p (CHR ''/''))) ''/'' in if d = [] then ''/'' else d)"

text \<open>A file system with one repository at \<open>/srv/repo\<close> whose HEAD has the given content.\<close>

definition repo_fs :: "string \<Rightarrow> fs_env" where
  "repo_fs head =
     \<lparr>path_Join = slashJoin, path_Base = slashBase, path_Dir = slashDir,
      isDir = (\<lambda>p. p = ''/srv/repo/.git''),
      ReadFile = (\<lambda>p. if p = ''/srv/repo/.git/HEAD'' then Some head else None)\<rparr>"

definition branch_head :: string where
  "branch_head = ''ref: refs/heads/feature/foo'' @ [CHR 0x0A]"

definition detached_head :: string where
  "detached_head = ''3f2a9c4e5d6b7a8091a2b3c4d5e6f708192a3b4c'' @ [CHR 0x0A]"

text \<open>A file system without any directory.\<close>

definition empty_fs :: fs_env where
  "empty_fs =
     \<lparr>path_Join = slashJoin, path_Base = slashBase, path_Dir = slashDir,
      isDir = (\<lambda>p. False), ReadFile = (\<lambda>p. None)\<rparr>"



text \<open>Windows hosts.  Text is decoded byte by byte, the base name is the part after the
  last backslash.\<close>

definition narrow :: "16 word list \<Rightarrow> string" where
  "narrow ws = map (\<lambda>w. char_of (unat w)) ws"

definition wide :: "string \<Rightarrow> 16 word list" where
  "wide s = map (\<lambda>c. word_of_nat (of_char c)) s"

definition backslashBase :: "string \<Rightarrow> string" where
  "backslashBase p = last (go_Split p (CHR 0x5C))"

definition demo_pbi :: "uintptr \<Rightarrow> processBasicInformation" where
  "demo_pbi peb =
     \<lparr>ExitStatus = 0, PebBaseAddress = peb, AffinityMask = 1, BasePriority = 8,
      UniqueProcessId = 4242, InheritedFromUniqueProcessId = 700\<rparr>"

definition demo_snapshot :: "PROCESSENTRY32 list" where
  "demo_snapshot =
     [\<lparr>ProcessID = 4, ParentProcessID = 0, ExeFile = wide ''System'' @ [0, 0]\<rparr>,
      \<lparr>ProcessID = 4242, ParentProcessID = 700, ExeFile = wide ''svc.exe'' @ [0, 0]\<rparr>]"

text \<open>Every handle open is denied; the snapshot lists the process.\<close>

definition denied_os :: win_os where
  "denied_os =
     \<lparr>OpenProcess = (\<lambda>access pid. Inl (OsError ''Access is denied.'')),
      GetProcessTimes = (\<lambda>h. None),
      NtQueryInformationProcess = (\<lambda>h. (1, demo_pbi 0)),
      ReadPointer = (\<lambda>h a. None),
      ReadParams = (\<lambda>h a. None),
      ReadWide = (\<lambda>h a n. None),
      QueryFullProcessImageName = (\<lambda>h. None),
      CreateToolhelp32Snapshot = Some demo_snapshot,
      utf16_decode = narrow,
      filepath_Base = backslashBase\<rparr>"

text \<open>Both handle opens succeed; the kernel reports the given control-block address, and
  the process memory holds a parameter block with the three strings.\<close>

definition demo_params :: rtlUserProcessParameters where
  "demo_params =
     \<lparr>CurrentDirectoryPath = \<lparr>Length = 6, MaximumLength = 8, Buffer = 0x3000\<rparr>,
      ImagePathName = \<lparr>Length = 14, MaximumLength = 16, Buffer = 0x3100\<rparr>,
      CommandLineStr = \<lparr>Length = 20, MaximumLength = 22, Buffer = 0x3200\<rparr>\<rparr>"

definition open_os :: "uintptr \<Rightarrow> win_os" where
  "open_os peb =
     \<lparr>OpenProcess = (\<lambda>access pid. Inr (if access = PROCESS_QUERY_LIMITED_INFORMATION then 2 else 1)),
      GetProcessTimes = (\<lambda>h. Some 1700000000000000000),
      NtQueryInformationProcess = (\<lambda>h. (0, demo_pbi peb)),
      ReadPointer = (\<lambda>h a. if a = peb + 0x20 then Some 0x2000 else None),
      ReadParams = (\<lambda>h a. if a = 0x2000 then Some demo_params else None),
      ReadWide = (\<lambda>h a n.
         if a = 0x3000 then Some (wide (''C:'' @ [CHR 0x5C]))
         else if a = 0x3100 then Some (wide ''svc.exe'')
         else if a = 0x3200 then Some (wide ''svc.exe -k'')
         else None),
      QueryFullProcessImageName = (\<lambda>h. Some (wide (''C:'' @ [CHR 0x5C] @ ''svc.exe''))),
      CreateToolhelp32Snapshot = Some demo_snapshot,
      utf16_decode = narrow,
      filepath_Base = backslashBase\<rparr>"

definition plain_env :: container_env where
  "plain_env = \<lparr>findLongHexID = (\<lambda>s. []), resolveContainerName = (\<lambda>id tool. [])\<rparr>"

section \<open>Descriptor sampling (collectDarwinFDs)\<close>

subsection \<open>Facts about strings.Fields\<close>









subsection \<open>One sample line\<close>




subsection \<open>The loop\<close>

lemma fdLoop_body:
  "length s \<le> 10 \<Longrightarrow>
   foldl fdStep (c, s, False) ls =
     (c + int (length (rowsOf ls)),
      take 10 (s @ filter (\<lambda>x. x \<noteq> []) (map summarizeLsofLine (rowsOf ls))), False)"
proof (induction ls arbitrary: c s)
  case Nil
  then show ?case by (simp add: rowsOf_def)
next
  case (Cons l ls)
  show ?case
  proof (cases "go_TrimSpace l = []")
    case True
    then have "fdStep (c, s, False) l = (c, s, False)" by (simp add: fdStep_def)
    with Cons True show ?thesis by (simp add: rowsOf_def)
  next
    case False
    let ?x = "summarizeLsofLine (go_TrimSpace l)"
    let ?s' = "if length s < 10 \<and> ?x \<noteq> [] then s @ [?x] else s"
    have st: "fdStep (c, s, False) l = (c + 1, ?s', False)"
      using False by (simp add: fdStep_def Let_def)
    have len: "length ?s' \<le> 10" using Cons.prems by simp
    have r: "rowsOf (l # ls) = go_TrimSpace l # rowsOf ls" using False by (simp add: rowsOf_def)
    have "take 10 (?s' @ filter (\<lambda>x. x \<noteq> []) (map summarizeLsofLine (rowsOf ls)))
        = take 10 (s @ filter (\<lambda>x. x \<noteq> []) (map summarizeLsofLine (rowsOf (l # ls))))"
      using Cons.prems by (auto simp: r take_Cons')
    then show ?thesis
      using Cons.IH [OF len, of "c + 1"] by (simp add: st r)
  qed
qed

lemma fdLoop_header:
  "foldl fdStep (0, [], True) ls =
     (int (length (drop 1 (rowsOf ls))),
      take 10 (filter (\<lambda>x. x \<noteq> []) (map summarizeLsofLine (drop 1 (rowsOf ls)))),
      rowsOf ls = [])"
proof (induction ls)
  case Nil
  then show ?case by (simp add: rowsOf_def)
next
  case (Cons l ls)
  show ?case
  proof (cases "go_TrimSpace l = []")
    case True
    then have "fdStep (0, [], True) l = (0, [], True)" by (simp add: fdStep_def)
    with Cons True show ?thesis by (simp add: rowsOf_def)
  next
    case False
    then have st: "fdStep (0, [], True) l = (0, [], False)" by (simp add: fdStep_def)
    have r: "rowsOf (l # ls) = go_TrimSpace l # rowsOf ls" using False by (simp add: rowsOf_def)
    show ?thesis using fdLoop_body [of "[]" 0 ls] by (simp add: st r)
  qed
qed







text \<open>
  \<^bold>\<open>C8.\<close>  Whatever lsof prints, and also when it fails, the list of descriptor samples
  returned by collectDarwinFDs has at most 10 elements, independently of the count
  returned with it.
\<close>

theorem collectDarwinFDs_samples_at_most_10:
  "length (fst (snd (collectDarwinFDs os pid))) \<le> 10"
  by (cases "run_lsof os pid") (simp_all add: collectDarwinFDs_def fdLoop_header)


end
